theory Spec2Isabelle
  imports Main
begin

section \<open>JavaScript values and objects\<close>

text \<open>
  The values that flow through the two components. A fetched pokemon is an object, or
  \<open>null\<close> when the server knows no pokemon of that name; a rejection carries any
  value. \<open>Inherited k\<close> is the value found under the key \<open>k\<close> on
  \<open>Object.prototype\<close> (a built-in function or object).
\<close>

datatype jsval =
    Undefined
  | Null
  | Bool bool
  | Num int
  | Str string
  | Obj "(string \<times> jsval) list"
  | Inherited string

text \<open>The truthiness that \<open>if (cachedPokemon)\<close> tests.\<close>

fun truthy :: "jsval \<Rightarrow> bool" where
  "truthy Undefined = False"
| "truthy Null = False"
| "truthy (Bool b) = b"
| "truthy (Num n) = (n \<noteq> 0)"
| "truthy (Str s) = (s \<noteq> [])"
| "truthy (Obj fields) = True"
| "truthy (Inherited k) = True"

text \<open>
  An object literal is the map of its own properties. Both \<open>{}\<close> and
  \<open>{...cache, [pokemonName]: pokemonData}\<close> have \<open>Object.prototype\<close> as their
  prototype, so reading a key that is no own property finds the prototype's property of
  that name, and \<open>undefined\<close> only when the prototype has none.
\<close>

type_synonym jsobject = "string \<rightharpoonup> jsval"

definition object_prototype :: "string list" where
  "object_prototype =
     [''constructor'', ''hasOwnProperty'', ''isPrototypeOf'', ''propertyIsEnumerable'',
      ''toLocaleString'', ''toString'', ''valueOf'', ''__proto__'',
      ''__defineGetter__'', ''__defineSetter__'', ''__lookupGetter__'', ''__lookupSetter__'']"

definition get_prop :: "jsobject \<Rightarrow> string \<Rightarrow> jsval" where
  "get_prop obj k =
     (case obj k of
        Some v \<Rightarrow> v
      | None \<Rightarrow> if k \<in> set object_prototype then Inherited k else Undefined)"

text \<open>
  \<open>throw new Error(`Unhandled action type: ${action.type}`)\<close> is the only throw of the
  two files; the error value keeps the action type that the message interpolates.
\<close>

datatype js_error = Unhandled_action_type jsval

text \<open>The three action types that the reducers handle.\<close>

definition handled :: "jsval list" where
  "handled = [Str ''LOADING'', Str ''LOADED'', Str ''ERROR'']"

text \<open>
  How a promise returned by \<open>fetchPokemon\<close> settles is the environment's choice: it
  resolves with \<open>response.data.pokemon\<close> or rejects (network failure, a body that is
  not JSON, a response without \<open>data\<close>).
\<close>

datatype settled = Resolve jsval | Reject jsval

text \<open>
  What happens to a mounted \<open>PokemonInfo\<close>: \<open>Usage\<close> renders it with a
  \<open>pokemonName\<close> prop, or the in-flight fetch at a position of the list of in-flight
  fetches settles. \<open>Usage\<close> keeps the component at the same place of the tree while
  \<open>pokemonName\<close> is truthy, so its hook state lives from one name to the next; the
  model follows one such life, from the mount on.
\<close>

datatype event = Render string | Settle nat settled

section \<open>exercises-final/02.js\<close>

record pokemon_state =
  loading :: bool
  pokemon :: jsval
  error :: jsval

text \<open>\<open>pokemonReducer\<close>. The \<open>switch\<close> compares with \<open>===\<close>.\<close>

definition pokemonReducer :: "pokemon_state \<Rightarrow> jsobject \<Rightarrow> js_error + pokemon_state" where
  "pokemonReducer state action =
     (if get_prop action ''type'' = Str ''LOADING'' then
        Inr \<lparr>loading = True, pokemon = Null, error = Null\<rparr>
      else if get_prop action ''type'' = Str ''LOADED'' then
        Inr \<lparr>loading = False, pokemon = get_prop action ''pokemon'', error = Null\<rparr>
      else if get_prop action ''type'' = Str ''ERROR'' then
        Inr \<lparr>loading = False, pokemon = Null, error = get_prop action ''error''\<rparr>
      else Inl (Unhandled_action_type (get_prop action ''type'')))"

text \<open>
  The hook state of \<open>PokemonInfo\<close> in exercises-final/02.js: the reducer state, the
  dependency list \<open>[pokemonName]\<close> that the effect last ran with (none before the first
  render), the names whose fetch is in flight, and every call of \<open>fetchPokemon\<close> so far.
\<close>

record info_02 =
  state_02 :: pokemon_state
  deps_02 :: "string option"
  in_flight_02 :: "string list"
  fetched_02 :: "string list"

definition mount_02 :: info_02 where
  "mount_02 =
     \<lparr>state_02 = \<lparr>loading = False, pokemon = Null, error = Null\<rparr>,
      deps_02 = None, in_flight_02 = [], fetched_02 = []\<rparr>"

definition dispatch_02 :: "jsobject \<Rightarrow> info_02 \<Rightarrow> js_error + info_02" where
  "dispatch_02 action c =
     (case pokemonReducer (state_02 c) action of
        Inl e \<Rightarrow> Inl e
      | Inr s \<Rightarrow> Inr (c\<lparr>state_02 := s\<rparr>))"

text \<open>
  A render of \<open>PokemonInfo\<close> with its effect: the effect runs when \<open>pokemonName\<close>
  differs from the one it last ran with, dispatches \<open>LOADING\<close> and calls
  \<open>fetchPokemon(pokemonName)\<close>.
\<close>

definition PokemonInfo_02 :: "string \<Rightarrow> info_02 \<Rightarrow> js_error + info_02" where
  "PokemonInfo_02 pokemonName c =
     (if deps_02 c = Some pokemonName then Inr c
      else
        (case dispatch_02 [''type'' \<mapsto> Str ''LOADING''] (c\<lparr>deps_02 := Some pokemonName\<rparr>) of
           Inl e \<Rightarrow> Inl e
         | Inr c1 \<Rightarrow>
             Inr (c1\<lparr>fetched_02 := fetched_02 c1 @ [pokemonName],
                     in_flight_02 := in_flight_02 c1 @ [pokemonName]\<rparr>)))"

text \<open>
  The two callbacks given to \<open>then\<close>. Neither looks at the name the fetch was started
  for. The render that follows the dispatch has the same \<open>pokemonName\<close>, so the effect
  does not run again.
\<close>

definition settle_02 :: "nat \<Rightarrow> settled \<Rightarrow> info_02 \<Rightarrow> js_error + info_02" where
  "settle_02 i outcome c =
     (if length (in_flight_02 c) \<le> i then Inr c
      else
        (let c1 = c\<lparr>in_flight_02 := take i (in_flight_02 c) @ drop (Suc i) (in_flight_02 c)\<rparr>
         in case outcome of
              Resolve p \<Rightarrow> dispatch_02 [''type'' \<mapsto> Str ''LOADED'', ''pokemon'' \<mapsto> p] c1
            | Reject err \<Rightarrow> dispatch_02 [''type'' \<mapsto> Str ''ERROR'', ''error'' \<mapsto> err] c1))"

fun step_02 :: "event \<Rightarrow> info_02 \<Rightarrow> js_error + info_02" where
  "step_02 (Render pokemonName) c = PokemonInfo_02 pokemonName c"
| "step_02 (Settle i outcome) c = settle_02 i outcome c"

fun run_02 :: "event list \<Rightarrow> info_02 \<Rightarrow> js_error + info_02" where
  "run_02 [] c = Inr c"
| "run_02 (ev # evs) c = (case step_02 ev c of Inl e \<Rightarrow> Inl e | Inr c1 \<Rightarrow> run_02 evs c1)"

section \<open>exercises/04.js\<close>

record async_state =
  loading :: bool
  data :: jsval
  error :: jsval

text \<open>\<open>asyncReducer\<close>.\<close>

definition asyncReducer :: "async_state \<Rightarrow> jsobject \<Rightarrow> js_error + async_state" where
  "asyncReducer state action =
     (if get_prop action ''type'' = Str ''LOADING'' then
        Inr \<lparr>loading = True, data = Null, error = Null\<rparr>
      else if get_prop action ''type'' = Str ''LOADED'' then
        Inr \<lparr>loading = False, data = get_prop action ''data'', error = Null\<rparr>
      else if get_prop action ''type'' = Str ''ERROR'' then
        Inr \<lparr>loading = False, data = Null, error = get_prop action ''error''\<rparr>
      else Inl (Unhandled_action_type (get_prop action ''type'')))"

text \<open>
  What the callbacks created by one render close over: \<open>addToCache\<close> and
  \<open>asyncCallback\<close> read the \<open>cache\<close> and the \<open>pokemonName\<close> of the render that
  created them.
\<close>

record closure =
  cl_cache :: jsobject
  cl_pokemonName :: string

text \<open>
  The hook state of \<open>PokemonInfo\<close> in exercises/04.js. \<open>setCache\<close> always installs a
  new object, and the dependency lists compare objects by identity, so the cache carries
  a counter that stands for the identity of the current object. \<open>last_render\<close> is the
  cache object and the \<open>pokemonName\<close> that the last render saw: \<open>addToCache\<close> (with
  dependencies \<open>[cache, pokemonName, setCache]\<close>) and \<open>asyncCallback\<close> (with
  \<open>[addToCache, cachedPokemon, pokemonName]\<close>, where \<open>cachedPokemon\<close> is
  \<open>cache[pokemonName]\<close>) are the memoised ones exactly when neither changed.
  \<open>in_flight\<close> holds one closure for each unsettled promise of \<open>fetchPokemon\<close>,
  \<open>fetched\<close> the argument of every call of \<open>fetchPokemon\<close> so far.
\<close>

record component =
  cache :: jsobject
  cache_id :: nat
  state :: async_state
  last_render :: "(nat \<times> string) option"
  in_flight :: "closure list"
  fetched :: "string list"

definition mount :: component where
  "mount =
     \<lparr>cache = Map.empty, cache_id = 0,
      state = \<lparr>loading = False, data = Null, error = Null\<rparr>,
      last_render = None, in_flight = [], fetched = []\<rparr>"

definition dispatch :: "jsobject \<Rightarrow> component \<Rightarrow> js_error + component" where
  "dispatch action c =
     (case asyncReducer (state c) action of
        Inl e \<Rightarrow> Inl e
      | Inr s \<Rightarrow> Inr (c\<lparr>state := s\<rparr>))"

text \<open>\<open>pokemonData => setCache({...cache, [pokemonName]: pokemonData})\<close>\<close>

definition addToCache :: "closure \<Rightarrow> jsval \<Rightarrow> component \<Rightarrow> component" where
  "addToCache cl pokemonData c =
     c\<lparr>cache := (cl_cache cl)(cl_pokemonName cl \<mapsto> pokemonData),
       cache_id := Suc (cache_id c)\<rparr>"

text \<open>
  \<open>asyncCallback\<close>: \<open>Some v\<close> stands for \<open>Promise.resolve(v)\<close>, \<open>None\<close> for the
  promise of a call of \<open>fetchPokemon\<close>, which is recorded and joins the fetches in
  flight together with the closure of its \<open>then\<close> callback.
\<close>

definition asyncCallback :: "closure \<Rightarrow> component \<Rightarrow> jsval option \<times> component" where
  "asyncCallback cl c =
     (let cachedPokemon = get_prop (cl_cache cl) (cl_pokemonName cl)
      in if truthy cachedPokemon then (Some cachedPokemon, c)
         else (None, c\<lparr>fetched := fetched c @ [cl_pokemonName cl],
                        in_flight := in_flight c @ [cl]\<rparr>))"

text \<open>
  The effect of \<open>useAsync\<close>. The \<open>then\<close> callback of an already resolved promise runs
  as a microtask, before anything else can happen to the component, so its
  \<open>LOADED\<close> dispatch belongs to the same step.
\<close>

definition useAsync :: "closure \<Rightarrow> component \<Rightarrow> js_error + component" where
  "useAsync cl c =
     (case dispatch [''type'' \<mapsto> Str ''LOADING''] c of
        Inl e \<Rightarrow> Inl e
      | Inr c1 \<Rightarrow>
          (case asyncCallback cl c1 of
             (Some v, c2) \<Rightarrow> dispatch [''type'' \<mapsto> Str ''LOADED'', ''data'' \<mapsto> v] c2
           | (None, c2) \<Rightarrow> Inr c2))"

text \<open>
  A render of \<open>PokemonInfo\<close> with its effect: the effect has the one dependency
  \<open>asyncCallback\<close> and runs after the first render and whenever the render made a new
  \<open>asyncCallback\<close>.
\<close>

definition PokemonInfo :: "string \<Rightarrow> component \<Rightarrow> js_error + component" where
  "PokemonInfo pokemonName c =
     (if last_render c = Some (cache_id c, pokemonName) then Inr c
      else useAsync \<lparr>cl_cache = cache c, cl_pokemonName = pokemonName\<rparr>
             (c\<lparr>last_render := Some (cache_id c, pokemonName)\<rparr>))"

text \<open>A state change makes React render the component again, with the prop it has.\<close>

definition rerender :: "component \<Rightarrow> js_error + component" where
  "rerender c =
     (case last_render c of
        None \<Rightarrow> Inr c
      | Some (v, pokemonName) \<Rightarrow> PokemonInfo pokemonName c)"

text \<open>
  An in-flight fetch settles. When it resolves, the \<open>then\<close> callback of
  \<open>asyncCallback\<close> calls \<open>addToCache\<close> and the one of \<open>useAsync\<close> dispatches
  \<open>LOADED\<close>; when it rejects, \<open>useAsync\<close> dispatches \<open>ERROR\<close>. The component then
  renders again. (Here the effect of that render comes after the \<open>LOADED\<close> dispatch, as
  in React since 16.9.) A position with no fetch in flight is no event.
\<close>

definition settle :: "nat \<Rightarrow> settled \<Rightarrow> component \<Rightarrow> js_error + component" where
  "settle i outcome c =
     (if length (in_flight c) \<le> i then Inr c
      else
        (let cl = in_flight c ! i;
             c1 = c\<lparr>in_flight := take i (in_flight c) @ drop (Suc i) (in_flight c)\<rparr>
         in case outcome of
              Resolve pokemonData \<Rightarrow>
                (case dispatch [''type'' \<mapsto> Str ''LOADED'', ''data'' \<mapsto> pokemonData]
                        (addToCache cl pokemonData c1) of
                   Inl e \<Rightarrow> Inl e
                 | Inr c2 \<Rightarrow> rerender c2)
            | Reject err \<Rightarrow>
                (case dispatch [''type'' \<mapsto> Str ''ERROR'', ''error'' \<mapsto> err] c1 of
                   Inl e \<Rightarrow> Inl e
                 | Inr c2 \<Rightarrow> rerender c2)))"

fun step :: "event \<Rightarrow> component \<Rightarrow> js_error + component" where
  "step (Render pokemonName) c = PokemonInfo pokemonName c"
| "step (Settle i outcome) c = settle i outcome c"

fun run :: "event list \<Rightarrow> component \<Rightarrow> js_error + component" where
  "run [] c = Inr c"
| "run (ev # evs) c = (case step ev c of Inl e \<Rightarrow> Inl e | Inr c1 \<Rightarrow> run evs c1)"

text \<open>
  Between two events the last render has seen the current cache object: every
  \<open>setCache\<close> is followed by a render within the same step.
\<close>

definition settled_render :: "component \<Rightarrow> bool" where
  "settled_render c =
     (case last_render c of None \<Rightarrow> True | Some d \<Rightarrow> fst d = cache_id c)"

text \<open>
  The shape of a reducer state: \<open>loading: true\<close> comes with no payload, and \<open>data\<close>
  and \<open>error\<close> are not both set.
\<close>

definition exclusive :: "async_state \<Rightarrow> bool" where
  "exclusive s =
     ((if loading s then data s = Null \<and> error s = Null else True) \<and>
      (data s = Null \<or> error s = Null))"

text \<open>\<open>const cachedPokemon = cache[pokemonName]\<close>\<close>

definition cachedPokemon :: "string \<Rightarrow> component \<Rightarrow> jsval" where
  "cachedPokemon pokemonName c = get_prop (cache c) pokemonName"


text \<open>Whether the cache object has an own property of that name.\<close>

definition has_entry :: "string \<Rightarrow> component \<Rightarrow> bool" where
  "has_entry pokemonName c = (cache c pokemonName \<noteq> None)"


section \<open>Renaming \<open>pokemon\<close> to \<open>data\<close>\<close>

definition rename_key :: "string \<Rightarrow> string" where
  "rename_key k = (if k = ''pokemon'' then ''data'' else if k = ''data'' then ''pokemon'' else k)"

definition rename_action :: "jsobject \<Rightarrow> jsobject" where
  "rename_action action = (\<lambda>k. action (rename_key k))"

definition rename_state :: "pokemon_state \<Rightarrow> async_state" where
  "rename_state s =
     \<lparr>loading = pokemon_state.loading s, data = pokemon s, error = pokemon_state.error s\<rparr>"

section \<open>Properties of the reducers\<close>

lemma get_prop_type_upd: "get_prop (action(''type'' \<mapsto> v)) ''type'' = v"
  by (simp add: get_prop_def)

lemma asyncReducer_LOADING:
  "get_prop action ''type'' = Str ''LOADING'' \<Longrightarrow>
   asyncReducer s action = Inr \<lparr>loading = True, data = Null, error = Null\<rparr>"
  by (simp add: asyncReducer_def)

lemma asyncReducer_LOADED:
  "get_prop action ''type'' = Str ''LOADED'' \<Longrightarrow>
   asyncReducer s action = Inr \<lparr>loading = False, data = get_prop action ''data'', error = Null\<rparr>"
  by (simp add: asyncReducer_def)

lemma asyncReducer_ERROR:
  "get_prop action ''type'' = Str ''ERROR'' \<Longrightarrow>
   asyncReducer s action = Inr \<lparr>loading = False, data = Null, error = get_prop action ''error''\<rparr>"
  by (simp add: asyncReducer_def)

lemma asyncReducer_unhandled:
  "get_prop action ''type'' \<notin> set handled \<Longrightarrow>
   asyncReducer s action = Inl (Unhandled_action_type (get_prop action ''type''))"
  by (simp add: asyncReducer_def handled_def)

lemma pokemonReducer_LOADING:
  "get_prop action ''type'' = Str ''LOADING'' \<Longrightarrow>
   pokemonReducer p action =
     Inr \<lparr>pokemon_state.loading = True, pokemon = Null, error = Null\<rparr>"
  by (simp add: pokemonReducer_def)

lemma pokemonReducer_LOADED:
  "get_prop action ''type'' = Str ''LOADED'' \<Longrightarrow>
   pokemonReducer p action =
     Inr \<lparr>pokemon_state.loading = False, pokemon = get_prop action ''pokemon'', error = Null\<rparr>"
  by (simp add: pokemonReducer_def)

lemma pokemonReducer_ERROR:
  "get_prop action ''type'' = Str ''ERROR'' \<Longrightarrow>
   pokemonReducer p action =
     Inr \<lparr>pokemon_state.loading = False, pokemon = Null, error = get_prop action ''error''\<rparr>"
  by (simp add: pokemonReducer_def)

lemma pokemonReducer_unhandled:
  "get_prop action ''type'' \<notin> set handled \<Longrightarrow>
   pokemonReducer p action = Inl (Unhandled_action_type (get_prop action ''type''))"
  by (simp add: pokemonReducer_def handled_def)

lemma handled_cases:
  "v \<in> set handled \<Longrightarrow> v = Str ''LOADING'' \<or> v = Str ''LOADED'' \<or> v = Str ''ERROR''"
  by (simp add: handled_def)

lemma asyncReducer_handled:
  assumes "get_prop action ''type'' \<in> set handled"
  shows "\<exists>s'. asyncReducer s action = Inr s'"
  using handled_cases [OF assms]
  by (auto simp: asyncReducer_LOADING asyncReducer_LOADED asyncReducer_ERROR)

lemma pokemonReducer_handled:
  assumes "get_prop action ''type'' \<in> set handled"
  shows "\<exists>p'. pokemonReducer p action = Inr p'"
  using handled_cases [OF assms]
  by (auto simp: pokemonReducer_LOADING pokemonReducer_LOADED pokemonReducer_ERROR)

lemma asyncReducer_ignores_state: "asyncReducer s1 action = asyncReducer s2 action"
  by (simp add: asyncReducer_def)

lemma pokemonReducer_ignores_state: "pokemonReducer p1 action = pokemonReducer p2 action"
  by (simp add: pokemonReducer_def)

lemma asyncReducer_exclusive: "asyncReducer s action = Inr s' \<Longrightarrow> exclusive s'"
  by (auto simp: asyncReducer_def exclusive_def split: if_splits)

lemma pokemonReducer_exclusive:
  "pokemonReducer p action = Inr p' \<Longrightarrow> exclusive (rename_state p')"
  by (auto simp: pokemonReducer_def exclusive_def rename_state_def split: if_splits)

lemma rename_key_involution: "rename_key (rename_key k) = k"
  by (simp add: rename_key_def)

lemma rename_action_involution: "rename_action (rename_action action) = action"
  by (simp add: rename_action_def rename_key_involution)

lemma get_prop_rename_type: "get_prop (rename_action action) ''type'' = get_prop action ''type''"
  by (simp add: get_prop_def rename_action_def rename_key_def)

lemma get_prop_rename_error: "get_prop (rename_action action) ''error'' = get_prop action ''error''"
  by (simp add: get_prop_def rename_action_def rename_key_def)

lemma get_prop_rename_data: "get_prop (rename_action action) ''data'' = get_prop action ''pokemon''"
  by (simp add: get_prop_def rename_action_def rename_key_def object_prototype_def)

lemma reducers_renamed:
  "asyncReducer s (rename_action action) = map_sum id rename_state (pokemonReducer p action)"
  by (simp add: asyncReducer_def pokemonReducer_def rename_state_def
      get_prop_rename_type get_prop_rename_error get_prop_rename_data)

text \<open>
  C7. The \<open>LOADING\<close> transition returns \<open>loading: true\<close> with \<open>data\<close> (or
  \<open>pokemon\<close>) and \<open>error\<close> both \<open>null\<close>, whatever the state before and whatever
  else the action carries; so does the \<open>LOADING\<close> dispatch of \<open>useAsync\<close>, which
  leaves the rest of the component as it is.
\<close>

theorem C7_loading_clears_payloads:
  "asyncReducer s (action(''type'' \<mapsto> Str ''LOADING'')) =
     Inr \<lparr>loading = True, data = Null, error = Null\<rparr> \<and>
   pokemonReducer p (action(''type'' \<mapsto> Str ''LOADING'')) =
     Inr \<lparr>pokemon_state.loading = True, pokemon = Null, error = Null\<rparr> \<and>
   dispatch [''type'' \<mapsto> Str ''LOADING''] c =
     Inr (c\<lparr>state := \<lparr>loading = True, data = Null, error = Null\<rparr>\<rparr>)"
  by (simp add: asyncReducer_LOADING pokemonReducer_LOADING get_prop_type_upd dispatch_def)

text \<open>
  C10. Under the renaming that exchanges the keys \<open>pokemon\<close> and \<open>data\<close> of the action
  and turns the \<open>pokemon\<close> field of the state into \<open>data\<close>, \<open>asyncReducer\<close> returns
  what \<open>pokemonReducer\<close> returns, in both directions, and throws the same error for the
  same actions; the renaming leaves the action type alone.
\<close>

theorem C10_reducers_equal_up_to_renaming:
  "asyncReducer s (rename_action action) = map_sum id rename_state (pokemonReducer p action) \<and>
   asyncReducer s action = map_sum id rename_state (pokemonReducer p (rename_action action)) \<and>
   get_prop (rename_action action) ''type'' = get_prop action ''type'' \<and>
   isl (asyncReducer s (rename_action action)) = isl (pokemonReducer p action)"
proof -
  have 1: "asyncReducer s (rename_action action) =
      map_sum id rename_state (pokemonReducer p action)"
    by (rule reducers_renamed)
  have "asyncReducer s (rename_action (rename_action action)) =
      map_sum id rename_state (pokemonReducer p (rename_action action))"
    by (rule reducers_renamed)
  then have 2: "asyncReducer s action =
      map_sum id rename_state (pokemonReducer p (rename_action action))"
    by (simp add: rename_action_involution)
  have 3: "isl (asyncReducer s (rename_action action)) = isl (pokemonReducer p action)"
    unfolding 1 by (cases "pokemonReducer p action") simp_all
  from 1 2 3 show ?thesis
    by (simp add: get_prop_rename_type)
qed

section \<open>Properties of the component of exercises/04.js\<close>

lemma dispatch_LOADING:
  "dispatch [''type'' \<mapsto> Str ''LOADING''] c =
     Inr (c\<lparr>state := \<lparr>loading = True, data = Null, error = Null\<rparr>\<rparr>)"
  by (simp add: dispatch_def asyncReducer_def get_prop_def)

lemma dispatch_LOADED:
  "dispatch [''type'' \<mapsto> Str ''LOADED'', ''data'' \<mapsto> v] c =
     Inr (c\<lparr>state := \<lparr>loading = False, data = v, error = Null\<rparr>\<rparr>)"
  by (simp add: dispatch_def asyncReducer_def get_prop_def)

lemma dispatch_ERROR:
  "dispatch [''type'' \<mapsto> Str ''ERROR'', ''error'' \<mapsto> e] c =
     Inr (c\<lparr>state := \<lparr>loading = False, data = Null, error = e\<rparr>\<rparr>)"
  by (simp add: dispatch_def asyncReducer_def get_prop_def)

lemma useAsync_cached:
  "truthy (get_prop (cl_cache cl) (cl_pokemonName cl)) \<Longrightarrow>
   useAsync cl c =
     Inr (c\<lparr>state := \<lparr>loading = False, data = get_prop (cl_cache cl) (cl_pokemonName cl),
                        error = Null\<rparr>\<rparr>)"
  by (simp add: useAsync_def dispatch_LOADING dispatch_LOADED asyncCallback_def)

lemma useAsync_fetch:
  "\<not> truthy (get_prop (cl_cache cl) (cl_pokemonName cl)) \<Longrightarrow>
   useAsync cl c =
     Inr (c\<lparr>state := \<lparr>loading = True, data = Null, error = Null\<rparr>,
            fetched := fetched c @ [cl_pokemonName cl],
            in_flight := in_flight c @ [cl]\<rparr>)"
  by (simp add: useAsync_def dispatch_LOADING asyncCallback_def)

lemma PokemonInfo_same:
  "last_render c = Some (cache_id c, k) \<Longrightarrow> PokemonInfo k c = Inr c"
  by (simp add: PokemonInfo_def)

lemma PokemonInfo_cached:
  "last_render c \<noteq> Some (cache_id c, k) \<Longrightarrow> truthy (cachedPokemon k c) \<Longrightarrow>
   PokemonInfo k c =
     Inr (c\<lparr>last_render := Some (cache_id c, k),
            state := \<lparr>loading = False, data = cachedPokemon k c, error = Null\<rparr>\<rparr>)"
  by (simp add: PokemonInfo_def cachedPokemon_def useAsync_cached)


lemma settle_none: "length (in_flight c) \<le> i \<Longrightarrow> settle i outcome c = Inr c"
  by (simp add: settle_def)

lemma rerender_same: "settled_render c \<Longrightarrow> rerender c = Inr c"
  by (auto simp: rerender_def settled_render_def PokemonInfo_def split: option.splits)

lemma settle_Reject:
  "i < length (in_flight c) \<Longrightarrow> settled_render c \<Longrightarrow>
   settle i (Reject e) c =
     Inr (c\<lparr>state := \<lparr>loading = False, data = Null, error = e\<rparr>,
            in_flight := take i (in_flight c) @ drop (Suc i) (in_flight c)\<rparr>)"
  by (cases c)
     (auto simp: settle_def Let_def dispatch_ERROR rerender_def PokemonInfo_def
        settled_render_def split: option.splits)



lemma useAsync_total: "\<exists>c'. useAsync cl c = Inr c'"
  by (cases "truthy (get_prop (cl_cache cl) (cl_pokemonName cl))")
     (simp_all add: useAsync_cached useAsync_fetch)

lemma PokemonInfo_total: "\<exists>c'. PokemonInfo k c = Inr c'"
  by (simp add: PokemonInfo_def useAsync_total)

lemma rerender_total: "\<exists>c'. rerender c = Inr c'"
  by (simp add: rerender_def PokemonInfo_total split: option.splits prod.splits)

lemma settle_total: "\<exists>c'. settle i outcome c = Inr c'"
  by (cases outcome)
     (simp_all add: settle_def Let_def dispatch_LOADED dispatch_ERROR rerender_total)

lemma step_total: "\<exists>c'. step ev c = Inr c'"
  by (cases ev) (simp_all add: PokemonInfo_total settle_total)

lemma run_total: "\<exists>c'. run evs c = Inr c'"
proof (induction evs arbitrary: c)
  case Nil
  show ?case by simp
next
  case (Cons ev evs)
  obtain c1 where "step ev c = Inr c1"
    using step_total by blast
  with Cons.IH [of c1] show ?case by simp
qed

lemma settled_render_mount: "settled_render mount"
  by (simp add: settled_render_def mount_def)

lemma useAsync_keeps:
  "useAsync cl c = Inr c' \<Longrightarrow>
   last_render c' = last_render c \<and> cache_id c' = cache_id c \<and> cache c' = cache c"
  by (cases "truthy (get_prop (cl_cache cl) (cl_pokemonName cl))")
     (auto simp: useAsync_cached useAsync_fetch)

lemma PokemonInfo_settled_render: "PokemonInfo k c = Inr c' \<Longrightarrow> settled_render c'"
  by (auto simp: PokemonInfo_def settled_render_def split: if_splits dest!: useAsync_keeps)

lemma rerender_settled_render:
  "rerender c = Inr c' \<Longrightarrow> settled_render c'"
  by (auto simp: rerender_def settled_render_def split: option.splits
      dest: PokemonInfo_settled_render)

lemma settle_settled_render:
  "settled_render c \<Longrightarrow> settle i outcome c = Inr c' \<Longrightarrow> settled_render c'"
  by (cases outcome)
     (auto simp: settle_def Let_def dispatch_LOADED dispatch_ERROR split: if_splits
        dest: rerender_settled_render)

lemma step_settled_render:
  "settled_render c \<Longrightarrow> step ev c = Inr c' \<Longrightarrow> settled_render c'"
  by (cases ev) (auto dest: PokemonInfo_settled_render settle_settled_render)

lemma exclusive_LOADING: "exclusive \<lparr>loading = True, data = Null, error = Null\<rparr>"
  by (simp add: exclusive_def)

lemma exclusive_LOADED: "exclusive \<lparr>loading = False, data = v, error = Null\<rparr>"
  by (simp add: exclusive_def)

lemma exclusive_ERROR: "exclusive \<lparr>loading = False, data = Null, error = e\<rparr>"
  by (simp add: exclusive_def)

lemma useAsync_exclusive: "useAsync cl c = Inr c' \<Longrightarrow> exclusive (state c')"
  by (cases "truthy (get_prop (cl_cache cl) (cl_pokemonName cl))")
     (auto simp: useAsync_cached useAsync_fetch exclusive_LOADING exclusive_LOADED)

lemma PokemonInfo_exclusive:
  "exclusive (state c) \<Longrightarrow> PokemonInfo k c = Inr c' \<Longrightarrow> exclusive (state c')"
  by (auto simp: PokemonInfo_def split: if_splits dest: useAsync_exclusive)

lemma rerender_exclusive:
  "exclusive (state c) \<Longrightarrow> rerender c = Inr c' \<Longrightarrow> exclusive (state c')"
  by (auto simp: rerender_def split: option.splits dest: PokemonInfo_exclusive)

lemma settle_exclusive:
  "exclusive (state c) \<Longrightarrow> settle i outcome c = Inr c' \<Longrightarrow> exclusive (state c')"
  by (cases outcome)
     (auto simp: settle_def Let_def dispatch_LOADED dispatch_ERROR addToCache_def
        exclusive_LOADED exclusive_ERROR split: if_splits dest!: rerender_exclusive [rotated])

lemma step_exclusive:
  "exclusive (state c) \<Longrightarrow> step ev c = Inr c' \<Longrightarrow> exclusive (state c')"
  by (cases ev) (auto dest: PokemonInfo_exclusive settle_exclusive)

lemma run_invariant:
  "settled_render c \<Longrightarrow> exclusive (state c) \<Longrightarrow> run evs c = Inr c' \<Longrightarrow>
   settled_render c' \<and> exclusive (state c')"
proof (induction evs arbitrary: c)
  case Nil
  then show ?case by simp
next
  case (Cons ev evs)
  from Cons.prems(3) obtain c1 where s: "step ev c = Inr c1" and r: "run evs c1 = Inr c'"
    by (auto split: sum.splits)
  from Cons.prems(1) s have "settled_render c1" by (rule step_settled_render)
  moreover from Cons.prems(2) s have "exclusive (state c1)" by (rule step_exclusive)
  ultimately show ?case using r by (rule Cons.IH)
qed

lemma reachable_invariant:
  "run evs mount = Inr c \<Longrightarrow> settled_render c \<and> exclusive (state c)"
  by (rule run_invariant [OF settled_render_mount]) (simp_all add: mount_def exclusive_def)










section \<open>Properties of the component of exercises-final/02.js\<close>

lemma dispatch_02_LOADING:
  "dispatch_02 [''type'' \<mapsto> Str ''LOADING''] d =
     Inr (d\<lparr>state_02 := \<lparr>pokemon_state.loading = True, pokemon = Null, error = Null\<rparr>\<rparr>)"
  by (simp add: dispatch_02_def pokemonReducer_def get_prop_def)

lemma dispatch_02_LOADED:
  "dispatch_02 [''type'' \<mapsto> Str ''LOADED'', ''pokemon'' \<mapsto> v] d =
     Inr (d\<lparr>state_02 := \<lparr>pokemon_state.loading = False, pokemon = v, error = Null\<rparr>\<rparr>)"
  by (simp add: dispatch_02_def pokemonReducer_def get_prop_def)

lemma dispatch_02_ERROR:
  "dispatch_02 [''type'' \<mapsto> Str ''ERROR'', ''error'' \<mapsto> e] d =
     Inr (d\<lparr>state_02 := \<lparr>pokemon_state.loading = False, pokemon = Null, error = e\<rparr>\<rparr>)"
  by (simp add: dispatch_02_def pokemonReducer_def get_prop_def)

lemma PokemonInfo_02_same: "deps_02 d = Some k \<Longrightarrow> PokemonInfo_02 k d = Inr d"
  by (simp add: PokemonInfo_02_def)

lemma PokemonInfo_02_new:
  "deps_02 d \<noteq> Some k \<Longrightarrow>
   PokemonInfo_02 k d =
     Inr (d\<lparr>deps_02 := Some k,
            state_02 := \<lparr>pokemon_state.loading = True, pokemon = Null, error = Null\<rparr>,
            fetched_02 := fetched_02 d @ [k],
            in_flight_02 := in_flight_02 d @ [k]\<rparr>)"
  by (simp add: PokemonInfo_02_def dispatch_02_LOADING)

lemma settle_02_none: "length (in_flight_02 d) \<le> i \<Longrightarrow> settle_02 i outcome d = Inr d"
  by (simp add: settle_02_def)

lemma settle_02_Resolve:
  "i < length (in_flight_02 d) \<Longrightarrow>
   settle_02 i (Resolve v) d =
     Inr (d\<lparr>in_flight_02 := take i (in_flight_02 d) @ drop (Suc i) (in_flight_02 d),
            state_02 := \<lparr>pokemon_state.loading = False, pokemon = v, error = Null\<rparr>\<rparr>)"
  by (simp add: settle_02_def Let_def dispatch_02_LOADED)

lemma settle_02_Reject:
  "i < length (in_flight_02 d) \<Longrightarrow>
   settle_02 i (Reject e) d =
     Inr (d\<lparr>in_flight_02 := take i (in_flight_02 d) @ drop (Suc i) (in_flight_02 d),
            state_02 := \<lparr>pokemon_state.loading = False, pokemon = Null, error = e\<rparr>\<rparr>)"
  by (simp add: settle_02_def Let_def dispatch_02_ERROR)

lemma settle_02_total: "\<exists>d'. settle_02 i outcome d = Inr d'"
  by (cases outcome) (simp_all add: settle_02_def Let_def dispatch_02_LOADED dispatch_02_ERROR)

lemma PokemonInfo_02_total: "\<exists>d'. PokemonInfo_02 k d = Inr d'"
  by (simp add: PokemonInfo_02_def dispatch_02_LOADING)

lemma step_02_total: "\<exists>d'. step_02 ev d = Inr d'"
  by (cases ev) (simp_all add: PokemonInfo_02_total settle_02_total)

lemma run_02_total: "\<exists>d'. run_02 evs d = Inr d'"
proof (induction evs arbitrary: d)
  case Nil
  show ?case by simp
next
  case (Cons ev evs)
  obtain d1 where "step_02 ev d = Inr d1"
    using step_02_total by blast
  with Cons.IH [of d1] show ?case by simp
qed

lemma step_02_exclusive:
  "exclusive (rename_state (state_02 d)) \<Longrightarrow> step_02 ev d = Inr d' \<Longrightarrow>
   exclusive (rename_state (state_02 d'))"
proof (cases ev)
  case (Render k)
  assume "exclusive (rename_state (state_02 d))" "step_02 ev d = Inr d'"
  with Render show ?thesis
    by (cases "deps_02 d = Some k")
       (auto simp: PokemonInfo_02_same PokemonInfo_02_new exclusive_def rename_state_def)
next
  case (Settle i outcome)
  assume "exclusive (rename_state (state_02 d))" "step_02 ev d = Inr d'"
  with Settle show ?thesis
    by (cases outcome; cases "i < length (in_flight_02 d)")
       (auto simp: settle_02_none settle_02_Resolve settle_02_Reject exclusive_def
          rename_state_def)
qed

lemma run_02_exclusive:
  "exclusive (rename_state (state_02 d)) \<Longrightarrow> run_02 evs d = Inr d' \<Longrightarrow>
   exclusive (rename_state (state_02 d'))"
proof (induction evs arbitrary: d)
  case Nil
  then show ?case by simp
next
  case (Cons ev evs)
  from Cons.prems(2) obtain d1 where s: "step_02 ev d = Inr d1" and r: "run_02 evs d1 = Inr d'"
    by (auto split: sum.splits)
  from Cons.prems(1) s have "exclusive (rename_state (state_02 d1))"
    by (rule step_02_exclusive)
  then show ?case using r by (rule Cons.IH)
qed

lemma exclusive_mount_02: "exclusive (rename_state (state_02 mount_02))"
  by (simp add: exclusive_def rename_state_def mount_02_def)

section \<open>Evaluation of concrete runs\<close>

lemmas trace_defs =
  PokemonInfo_def useAsync_def asyncCallback_def dispatch_def asyncReducer_def get_prop_def
  object_prototype_def settle_def rerender_def addToCache_def mount_def Let_def

lemmas trace_02_defs =
  PokemonInfo_02_def dispatch_02_def pokemonReducer_def get_prop_def object_prototype_def
  settle_02_def mount_02_def Let_def

section \<open>Requests, completions and the cache\<close>

text \<open>
  C6. The reducers return a state for every action whose \<open>type\<close> is \<open>'LOADING'\<close>,
  \<open>'LOADED'\<close> or \<open>'ERROR'\<close>, whatever the state, and throw for every action whose
  \<open>type\<close> is anything else (a missing \<open>type\<close> included). The components
  dispatch the three handled types only, so no sequence of events from the mount
  makes either of them throw.
\<close>

theorem C6_reducers_total_on_handled:
  "(get_prop a ''type'' \<in> set handled \<longrightarrow>
      (\<exists>s'. asyncReducer s a = Inr s') \<and> (\<exists>p'. pokemonReducer p a = Inr p')) \<and>
   (get_prop b ''type'' \<notin> set handled \<longrightarrow>
      asyncReducer s b = Inl (Unhandled_action_type (get_prop b ''type'')) \<and>
      pokemonReducer p b = Inl (Unhandled_action_type (get_prop b ''type''))) \<and>
   (\<exists>c'. run evs mount = Inr c') \<and>
   (\<exists>d'. run_02 evs mount_02 = Inr d')"
  by (simp add: asyncReducer_handled pokemonReducer_handled asyncReducer_unhandled
      pokemonReducer_unhandled run_total run_02_total)

theorem C6_reducers_total_on_handled_witness:
  "get_prop [''type'' \<mapsto> Str ''LOADED'', ''data'' \<mapsto> Num 25] ''type'' \<in> set handled \<and>
   asyncReducer \<lparr>loading = True, data = Null, error = Null\<rparr>
     [''type'' \<mapsto> Str ''LOADED'', ''data'' \<mapsto> Num 25] =
     Inr \<lparr>loading = False, data = Num 25, error = Null\<rparr> \<and>
   get_prop [''type'' \<mapsto> Str ''RESET''] ''type'' \<notin> set handled \<and>
   asyncReducer \<lparr>loading = True, data = Null, error = Null\<rparr> [''type'' \<mapsto> Str ''RESET''] =
     Inl (Unhandled_action_type (Str ''RESET'')) \<and>
   pokemonReducer \<lparr>pokemon_state.loading = True, pokemon = Null, error = Null\<rparr>
     [''type'' \<mapsto> Str ''RESET''] = Inl (Unhandled_action_type (Str ''RESET''))"
  using C6_reducers_total_on_handled
    [of "[''type'' \<mapsto> Str ''LOADED'', ''data'' \<mapsto> Num 25]"
        "\<lparr>loading = True, data = Null, error = Null\<rparr>"
        "\<lparr>pokemon_state.loading = True, pokemon = Null, error = Null\<rparr>"
        "[''type'' \<mapsto> Str ''RESET'']"]
  by (simp add: get_prop_def handled_def asyncReducer_def)

text \<open>
  C9. The next state of either reducer does not depend on the state it is given. So
  every state that a reducer returns, and every state that either component is in after
  any sequence of events from its mount, has \<open>loading: true\<close> only with \<open>data\<close>
  and \<open>error\<close> both \<open>null\<close>, and never has both \<open>data\<close> and \<open>error\<close> set.
\<close>

theorem C9_reducer_ignores_state:
  "asyncReducer s1 a = asyncReducer s2 a \<and>
   pokemonReducer p1 a = pokemonReducer p2 a \<and>
   (asyncReducer s1 a = Inr s' \<longrightarrow> exclusive s') \<and>
   (pokemonReducer p1 a = Inr p' \<longrightarrow> exclusive (rename_state p')) \<and>
   (run evs mount = Inr c \<longrightarrow> exclusive (state c)) \<and>
   (run_02 evs mount_02 = Inr d \<longrightarrow> exclusive (rename_state (state_02 d)))"
proof -
  have "asyncReducer s1 a = asyncReducer s2 a"
    by (rule asyncReducer_ignores_state)
  moreover have "pokemonReducer p1 a = pokemonReducer p2 a"
    by (rule pokemonReducer_ignores_state)
  moreover have "run evs mount = Inr c \<longrightarrow> exclusive (state c)"
    by (simp add: reachable_invariant)
  moreover have "run_02 evs mount_02 = Inr d \<longrightarrow> exclusive (rename_state (state_02 d))"
    using run_02_exclusive [OF exclusive_mount_02] by blast
  ultimately show ?thesis
    by (simp add: asyncReducer_exclusive pokemonReducer_exclusive)
qed

theorem C9_reducer_ignores_state_witness:
  "asyncReducer \<lparr>loading = True, data = Null, error = Null\<rparr>
     [''type'' \<mapsto> Str ''ERROR'', ''error'' \<mapsto> Str ''not found''] =
     Inr \<lparr>loading = False, data = Null, error = Str ''not found''\<rparr> \<and>
   asyncReducer \<lparr>loading = False, data = Num 25, error = Null\<rparr>
     [''type'' \<mapsto> Str ''ERROR'', ''error'' \<mapsto> Str ''not found''] =
     Inr \<lparr>loading = False, data = Null, error = Str ''not found''\<rparr> \<and>
   exclusive \<lparr>loading = False, data = Null, error = Str ''not found''\<rparr> \<and>
   pokemonReducer \<lparr>pokemon_state.loading = True, pokemon = Null, error = Null\<rparr>
     [''type'' \<mapsto> Str ''ERROR'', ''error'' \<mapsto> Str ''not found''] =
     Inr \<lparr>pokemon_state.loading = False, pokemon = Null, error = Str ''not found''\<rparr> \<and>
   run [Render ''mew''] mount =
     Inr \<lparr>cache = Map.empty, cache_id = 0,
          state = \<lparr>loading = True, data = Null, error = Null\<rparr>,
          last_render = Some (0, ''mew''),
          in_flight = [\<lparr>cl_cache = Map.empty, cl_pokemonName = ''mew''\<rparr>],
          fetched = [''mew'']\<rparr> \<and>
   exclusive \<lparr>loading = True, data = Null, error = Null\<rparr> \<and>
   run_02 [Render ''mew''] mount_02 =
     Inr \<lparr>state_02 = \<lparr>pokemon_state.loading = True, pokemon = Null, error = Null\<rparr>,
          deps_02 = Some ''mew'', in_flight_02 = [''mew''], fetched_02 = [''mew'']\<rparr>"
  using C9_reducer_ignores_state
    [of "\<lparr>loading = True, data = Null, error = Null\<rparr>"
        "[''type'' \<mapsto> Str ''ERROR'', ''error'' \<mapsto> Str ''not found'']"
        "\<lparr>loading = False, data = Num 25, error = Null\<rparr>"
        "\<lparr>pokemon_state.loading = True, pokemon = Null, error = Null\<rparr>"
        "\<lparr>pokemon_state.loading = True, pokemon = Null, error = Null\<rparr>"
        "\<lparr>loading = False, data = Null, error = Str ''not found''\<rparr>"
        "\<lparr>pokemon_state.loading = False, pokemon = Null, error = Str ''not found''\<rparr>"
        "[Render ''mew'']"
        "\<lparr>cache = Map.empty, cache_id = 0,
          state = \<lparr>loading = True, data = Null, error = Null\<rparr>,
          last_render = Some (0, ''mew''),
          in_flight = [\<lparr>cl_cache = Map.empty, cl_pokemonName = ''mew''\<rparr>],
          fetched = [''mew'']\<rparr>"
        "\<lparr>state_02 = \<lparr>pokemon_state.loading = True, pokemon = Null, error = Null\<rparr>,
          deps_02 = Some ''mew'', in_flight_02 = [''mew''], fetched_02 = [''mew'']\<rparr>"]
  by (simp add: trace_defs trace_02_defs rename_state_def)




text \<open>
  C2, as stated, fails. First run: the cache holds the payload of \<open>mew\<close>, the late
  rejection of the fetch of \<open>pikachu\<close> has put the state in error, and another render
  with \<open>mew\<close> leaves it there, since the effect does not run again. Second run: a
  fetch resolved with \<open>null\<close>, the cache has that entry, and every render after which
  the effect runs calls \<open>fetchPokemon\<close> for the name again, as \<open>null\<close> is not truthy.
\<close>

theorem C2_cached_key_not_served_from_cache:
  "map_sum id (cachedPokemon ''mew'')
     (run [Render ''pikachu'', Render ''mew'',
           Settle 1 (Resolve (Obj [(''name'', Str ''Mew'')])),
           Settle 0 (Reject (Str ''timeout''))] mount) =
     Inr (Obj [(''name'', Str ''Mew'')]) \<and>
   map_sum id state
     (run [Render ''pikachu'', Render ''mew'',
           Settle 1 (Resolve (Obj [(''name'', Str ''Mew'')])),
           Settle 0 (Reject (Str ''timeout'')), Render ''mew''] mount) =
     Inr \<lparr>loading = False, data = Null, error = Str ''timeout''\<rparr> \<and>
   map_sum id (has_entry ''missingno'')
     (run [Render ''missingno'', Settle 0 (Resolve Null), Render ''mew''] mount) = Inr True \<and>
   map_sum id fetched
     (run [Render ''missingno'', Settle 0 (Resolve Null), Render ''mew''] mount) =
     Inr [''missingno'', ''missingno'', ''mew''] \<and>
   map_sum id fetched
     (run [Render ''missingno'', Settle 0 (Resolve Null), Render ''mew'',
           Render ''missingno''] mount) =
     Inr [''missingno'', ''missingno'', ''mew'', ''missingno'']"
  by (simp add: trace_defs cachedPokemon_def has_entry_def)

text \<open>
  C2, amended. When the cache has a truthy payload \<open>p\<close> under the name \<open>k\<close>, a
  render with \<open>k\<close> calls \<open>fetchPokemon\<close> for nothing, starts no fetch and leaves the
  cache alone. When the last render was with another name or another cache object, the
  state becomes \<open>{loading: false, data: p, error: null}\<close>; otherwise the effect does not
  run and the state stays as it is.
\<close>

theorem C2_truthy_cached_payload_served:
  "cache c k = Some p \<Longrightarrow> truthy p \<Longrightarrow>
   map_sum id fetched (PokemonInfo k c) = Inr (fetched c) \<and>
   map_sum id in_flight (PokemonInfo k c) = Inr (in_flight c) \<and>
   map_sum id cache (PokemonInfo k c) = Inr (cache c) \<and>
   map_sum id state (PokemonInfo k c) =
     Inr (if last_render c = Some (cache_id c, k) then state c
          else \<lparr>loading = False, data = p, error = Null\<rparr>)"
proof -
  assume "cache c k = Some p" and t: "truthy p"
  then have p: "cachedPokemon k c = p"
    by (simp add: cachedPokemon_def get_prop_def)
  show ?thesis
  proof (cases "last_render c = Some (cache_id c, k)")
    case True
    then show ?thesis by (simp add: PokemonInfo_same)
  next
    case False
    with p t show ?thesis by (simp add: PokemonInfo_cached)
  qed
qed

theorem C2_truthy_cached_payload_served_witness:
  "cache
     \<lparr>cache = [''pikachu'' \<mapsto> Obj [(''name'', Str ''Pikachu'')]], cache_id = 1,
      state = \<lparr>loading = True, data = Null, error = Null\<rparr>,
      last_render = Some (1, ''mew''),
      in_flight =
        [\<lparr>cl_cache = [''pikachu'' \<mapsto> Obj [(''name'', Str ''Pikachu'')]],
          cl_pokemonName = ''mew''\<rparr>],
      fetched = [''pikachu'', ''mew'']\<rparr> ''pikachu'' =
     Some (Obj [(''name'', Str ''Pikachu'')]) \<and>
   truthy (Obj [(''name'', Str ''Pikachu'')]) \<and>
   map_sum id fetched
     (PokemonInfo ''pikachu''
        \<lparr>cache = [''pikachu'' \<mapsto> Obj [(''name'', Str ''Pikachu'')]], cache_id = 1,
         state = \<lparr>loading = True, data = Null, error = Null\<rparr>,
         last_render = Some (1, ''mew''),
         in_flight =
           [\<lparr>cl_cache = [''pikachu'' \<mapsto> Obj [(''name'', Str ''Pikachu'')]],
             cl_pokemonName = ''mew''\<rparr>],
         fetched = [''pikachu'', ''mew'']\<rparr>) = Inr [''pikachu'', ''mew''] \<and>
   map_sum id state
     (PokemonInfo ''pikachu''
        \<lparr>cache = [''pikachu'' \<mapsto> Obj [(''name'', Str ''Pikachu'')]], cache_id = 1,
         state = \<lparr>loading = True, data = Null, error = Null\<rparr>,
         last_render = Some (1, ''mew''),
         in_flight =
           [\<lparr>cl_cache = [''pikachu'' \<mapsto> Obj [(''name'', Str ''Pikachu'')]],
             cl_pokemonName = ''mew''\<rparr>],
         fetched = [''pikachu'', ''mew'']\<rparr>) =
     Inr \<lparr>loading = False, data = Obj [(''name'', Str ''Pikachu'')], error = Null\<rparr>"
  using C2_truthy_cached_payload_served
    [of "\<lparr>cache = [''pikachu'' \<mapsto> Obj [(''name'', Str ''Pikachu'')]], cache_id = 1,
          state = \<lparr>loading = True, data = Null, error = Null\<rparr>,
          last_render = Some (1, ''mew''),
          in_flight =
            [\<lparr>cl_cache = [''pikachu'' \<mapsto> Obj [(''name'', Str ''Pikachu'')]],
              cl_pokemonName = ''mew''\<rparr>],
          fetched = [''pikachu'', ''mew'']\<rparr>"
        "''pikachu''" "Obj [(''name'', Str ''Pikachu'')]"]
  by simp







text \<open>
  C5. A rejection never throws: settling a fetch with a rejection always returns a
  component, in both files. Between two events, when the fetch at position \<open>i\<close> is in
  flight, the result is the component with that fetch removed and the state
  \<open>{loading: false, data: null, error: e}\<close>, where \<open>e\<close> is the rejection value as it
  came; nothing else changes (cache, calls of \<open>fetchPokemon\<close>, last render).
\<close>

theorem C5_rejection_becomes_Errored_state:
  "(\<exists>c'. settle i (Reject e) c = Inr c') \<and>
   (\<exists>d'. settle_02 j (Reject e) d = Inr d') \<and>
   (settled_render c \<longrightarrow> i < length (in_flight c) \<longrightarrow>
      settle i (Reject e) c =
        Inr (c\<lparr>state := \<lparr>loading = False, data = Null, error = e\<rparr>,
               in_flight := take i (in_flight c) @ drop (Suc i) (in_flight c)\<rparr>)) \<and>
   (j < length (in_flight_02 d) \<longrightarrow>
      settle_02 j (Reject e) d =
        Inr (d\<lparr>in_flight_02 := take j (in_flight_02 d) @ drop (Suc j) (in_flight_02 d),
               state_02 := \<lparr>pokemon_state.loading = False, pokemon = Null, error = e\<rparr>\<rparr>))"
  by (simp add: settle_total settle_02_total settle_Reject settle_02_Reject)

theorem C5_rejection_becomes_Errored_state_witness:
  "settled_render
     \<lparr>cache = Map.empty, cache_id = 0,
      state = \<lparr>loading = True, data = Null, error = Null\<rparr>,
      last_render = Some (0, ''missingno''),
      in_flight = [\<lparr>cl_cache = Map.empty, cl_pokemonName = ''missingno''\<rparr>],
      fetched = [''missingno'']\<rparr> \<and>
   0 < length (in_flight
     \<lparr>cache = Map.empty, cache_id = 0,
      state = \<lparr>loading = True, data = Null, error = Null\<rparr>,
      last_render = Some (0, ''missingno''),
      in_flight = [\<lparr>cl_cache = Map.empty, cl_pokemonName = ''missingno''\<rparr>],
      fetched = [''missingno'']\<rparr>) \<and>
   settle 0 (Reject (Str ''not found''))
     \<lparr>cache = Map.empty, cache_id = 0,
      state = \<lparr>loading = True, data = Null, error = Null\<rparr>,
      last_render = Some (0, ''missingno''),
      in_flight = [\<lparr>cl_cache = Map.empty, cl_pokemonName = ''missingno''\<rparr>],
      fetched = [''missingno'']\<rparr> =
     Inr \<lparr>cache = Map.empty, cache_id = 0,
          state = \<lparr>loading = False, data = Null, error = Str ''not found''\<rparr>,
          last_render = Some (0, ''missingno''), in_flight = [],
          fetched = [''missingno'']\<rparr> \<and>
   0 < length (in_flight_02
     \<lparr>state_02 = \<lparr>pokemon_state.loading = True, pokemon = Null, error = Null\<rparr>,
      deps_02 = Some ''missingno'', in_flight_02 = [''missingno''],
      fetched_02 = [''missingno'']\<rparr>) \<and>
   settle_02 0 (Reject (Str ''not found''))
     \<lparr>state_02 = \<lparr>pokemon_state.loading = True, pokemon = Null, error = Null\<rparr>,
      deps_02 = Some ''missingno'', in_flight_02 = [''missingno''],
      fetched_02 = [''missingno'']\<rparr> =
     Inr \<lparr>state_02 = \<lparr>pokemon_state.loading = False, pokemon = Null,
                       error = Str ''not found''\<rparr>,
          deps_02 = Some ''missingno'', in_flight_02 = [], fetched_02 = [''missingno'']\<rparr>"
  using C5_rejection_becomes_Errored_state
    [of 0 "Str ''not found''"
        "\<lparr>cache = Map.empty, cache_id = 0,
          state = \<lparr>loading = True, data = Null, error = Null\<rparr>,
          last_render = Some (0, ''missingno''),
          in_flight = [\<lparr>cl_cache = Map.empty, cl_pokemonName = ''missingno''\<rparr>],
          fetched = [''missingno'']\<rparr>"
        0
        "\<lparr>state_02 = \<lparr>pokemon_state.loading = True, pokemon = Null, error = Null\<rparr>,
          deps_02 = Some ''missingno'', in_flight_02 = [''missingno''],
          fetched_02 = [''missingno'']\<rparr>"]
  by (simp add: settled_render_def)

text \<open>
  C8 fails on the code. \<open>pikachu\<close> and \<open>mew\<close> are requested while the cache is empty,
  so both \<open>addToCache\<close> callbacks close over the empty cache. When the fetch of
  \<open>pikachu\<close> resolves the cache has its entry; when the first fetch of \<open>mew\<close>
  resolves, \<open>setCache({...cache, [pokemonName]: pokemonData})\<close> spreads the empty
  cache, and the entry of \<open>pikachu\<close> is gone.
\<close>

theorem C8_later_completion_drops_cache_entry:
  "map_sum id (has_entry ''pikachu'')
     (run [Render ''pikachu'', Render ''mew'',
           Settle 0 (Resolve (Obj [(''name'', Str ''Pikachu'')]))] mount) = Inr True \<and>
   map_sum id (has_entry ''pikachu'')
     (run [Render ''pikachu'', Render ''mew'',
           Settle 0 (Resolve (Obj [(''name'', Str ''Pikachu'')])),
           Settle 0 (Resolve (Obj [(''name'', Str ''Mew'')]))] mount) = Inr False \<and>
   map_sum id (cachedPokemon ''pikachu'')
     (run [Render ''pikachu'', Render ''mew'',
           Settle 0 (Resolve (Obj [(''name'', Str ''Pikachu'')])),
           Settle 0 (Resolve (Obj [(''name'', Str ''Mew'')]))] mount) = Inr Undefined \<and>
   map_sum id (has_entry ''mew'')
     (run [Render ''pikachu'', Render ''mew'',
           Settle 0 (Resolve (Obj [(''name'', Str ''Pikachu'')])),
           Settle 0 (Resolve (Obj [(''name'', Str ''Mew'')]))] mount) = Inr True"
  by (simp add: trace_defs has_entry_def cachedPokemon_def)

end
